theory Spec2Isabelle
  imports Main "HOL-Library.AList"
begin

section \<open>Python strings and dictionaries\<close>

text \<open>
  A Python \<open>str\<close> is a sequence of code points. It is modelled as a \<open>string\<close> whose
  characters are the code points U+0000 to U+00FF, so that the length of a string and a
  slice count code points; strings with a code point above U+00FF are not covered.
  On this range \<open>str.lower\<close> maps each letter \<open>A\<close>..\<open>Z\<close>, U+00C0..U+00D6 and
  U+00D8..U+00DE to the code point 32 above it and leaves every other code point as it
  is. A Python \<open>dict\<close> is an association list in insertion order, read with \<open>map_of\<close>.
\<close>

definition dict_get :: "('k \<times> 'v) list \<Rightarrow> 'k \<Rightarrow> 'v \<Rightarrow> 'v" where
  "dict_get d k dflt = (case map_of d k of Some v \<Rightarrow> v | None \<Rightarrow> dflt)"

definition upper_latin1 :: string where
  "upper_latin1 =
     [CHR 0xC0, CHR 0xC1, CHR 0xC2, CHR 0xC3, CHR 0xC4, CHR 0xC5, CHR 0xC6, CHR 0xC7,
      CHR 0xC8, CHR 0xC9, CHR 0xCA, CHR 0xCB, CHR 0xCC, CHR 0xCD, CHR 0xCE, CHR 0xCF,
      CHR 0xD0, CHR 0xD1, CHR 0xD2, CHR 0xD3, CHR 0xD4, CHR 0xD5, CHR 0xD6,
      CHR 0xD8, CHR 0xD9, CHR 0xDA, CHR 0xDB, CHR 0xDC, CHR 0xDD, CHR 0xDE]"

definition lower_latin1 :: string where
  "lower_latin1 =
     [CHR 0xE0, CHR 0xE1, CHR 0xE2, CHR 0xE3, CHR 0xE4, CHR 0xE5, CHR 0xE6, CHR 0xE7,
      CHR 0xE8, CHR 0xE9, CHR 0xEA, CHR 0xEB, CHR 0xEC, CHR 0xED, CHR 0xEE, CHR 0xEF,
      CHR 0xF0, CHR 0xF1, CHR 0xF2, CHR 0xF3, CHR 0xF4, CHR 0xF5, CHR 0xF6,
      CHR 0xF8, CHR 0xF9, CHR 0xFA, CHR 0xFB, CHR 0xFC, CHR 0xFD, CHR 0xFE]"

definition lower_char :: "char \<Rightarrow> char" where
  "lower_char c =
     dict_get (zip (''ABCDEFGHIJKLMNOPQRSTUVWXYZ'' @ upper_latin1)
                   (''abcdefghijklmnopqrstuvwxyz'' @ lower_latin1)) c c"

definition str_lower :: "string \<Rightarrow> string" where
  "str_lower s = map lower_char s"

text \<open>\<open>s.replace(old, new)\<close> for a one-character \<open>old\<close>, the only form the program uses.\<close>

definition str_replace :: "char \<Rightarrow> string \<Rightarrow> string \<Rightarrow> string" where
  "str_replace old new s = concat (map (\<lambda>c. if c = old then new else [c]) s)"

fun str_join :: "string \<Rightarrow> string list \<Rightarrow> string" where
  "str_join sep [] = []"
| "str_join sep [x] = x"
| "str_join sep (x # y # ys) = x @ sep @ str_join sep (y # ys)"

text \<open>Truthiness of an \<open>Optional[str]\<close>: \<open>None\<close> and the empty string are false.\<close>

fun truthy :: "string option \<Rightarrow> bool" where
  "truthy None = False"
| "truthy (Some s) = (s \<noteq> [])"

text \<open>What an f-string prints for an \<open>Optional[str]\<close>.\<close>

fun py_str :: "string option \<Rightarrow> string" where
  "py_str None = ''None''"
| "py_str (Some s) = s"

text \<open>Decimal rendering of a non-negative integer, as \<open>str(n)\<close> prints it.\<close>

definition digit_char :: "nat \<Rightarrow> char" where
  "digit_char d = ''0123456789'' ! d"

fun str_nat :: "nat \<Rightarrow> string" where
  "str_nat n = (if n < 10 then [digit_char n] else str_nat (n div 10) @ [digit_char (n mod 10)])"

declare str_nat.simps [simp del]

section \<open>Query builder\<close>

datatype SortCriterion = Relevance | SubmittedDate | LastUpdatedDate

datatype SortOrder = Ascending | Descending

definition sort_mapping :: "(string \<times> SortCriterion) list" where
  "sort_mapping =
     [(''relevance'', Relevance),
      (''submitted'', SubmittedDate),
      (''submitteddate'', SubmittedDate),
      (''updated'', LastUpdatedDate),
      (''lastupdated'', LastUpdatedDate),
      (''lastupdateddate'', LastUpdatedDate)]"

definition sort_criterion :: "string \<Rightarrow> SortCriterion" where
  "sort_criterion sb = dict_get sort_mapping (str_replace CHR ''_'' [] (str_lower sb)) Relevance"

definition order_mapping :: "(string \<times> SortOrder) list" where
  "order_mapping =
     [(''desc'', Descending),
      (''descending'', Descending),
      (''asc'', Ascending),
      (''ascending'', Ascending)]"

definition sort_order_enum :: "string \<Rightarrow> SortOrder" where
  "sort_order_enum so = dict_get order_mapping (str_lower so) Descending"

definition field_mapping :: "(string \<times> string) list" where
  "field_mapping =
     [(''title'', ''ti''),
      (''author'', ''au''),
      (''abstract'', ''abs''),
      (''category'', ''cat''),
      (''comment'', ''co''),
      (''journal'', ''jr''),
      (''all'', ''all'')]"

definition field_prefix :: "string \<Rightarrow> string" where
  "field_prefix sf = dict_get field_mapping (str_lower sf) ''all''"

text \<open>
  The list \<open>search_query_parts\<close> as it stands before the join: the term, then the author
  clause, then the date clause. The arguments are \<open>query\<close>, \<open>search_field\<close>,
  \<open>author_search\<close>, \<open>date_from\<close> and \<open>date_to\<close>.
\<close>

definition search_query_parts ::
  "string \<Rightarrow> string \<Rightarrow> string option \<Rightarrow> string option \<Rightarrow> string option \<Rightarrow> string list" where
  "search_query_parts q sf au df dt =
     (if field_prefix sf \<noteq> ''all'' then [field_prefix sf @ '':'' @ q] else [q])
     @ (if truthy au then [''au:'' @ str_lower (str_replace CHR '' '' ''_'' (py_str au))] else [])
     @ (if truthy df \<or> truthy dt then
          (if truthy df \<and> truthy dt then
             [''submittedDate:['' @ py_str df @ ''0000 TO '' @ py_str dt @ ''2359]'']
           else if truthy df then
             [''submittedDate:['' @ py_str df @ ''0000 TO *]'']
           else if truthy dt then
             [''submittedDate:[* TO '' @ py_str dt @ ''2359]'']
           else [])
        else [])"

definition final_query ::
  "string \<Rightarrow> string \<Rightarrow> string option \<Rightarrow> string option \<Rightarrow> string option \<Rightarrow> string" where
  "final_query q sf au df dt = str_join '' AND '' (search_query_parts q sf au df dt)"

definition query_slug :: "string \<Rightarrow> string option \<Rightarrow> string" where
  "query_slug q au =
     take 50 (str_replace CHR ''/'' ''_'' (str_replace CHR '' '' ''_'' (str_lower q)))
     @ (if truthy au then ''_by_'' @ str_replace CHR '' '' ''_'' (py_str au) else [])"


text \<open>\<open>os.path.join\<close> of two components on a POSIX system.\<close>

definition path_join :: "string \<Rightarrow> string \<Rightarrow> string" where
  "path_join a b =
     (if take 1 b = ''/'' then b
      else if a = [] \<or> last a = CHR ''/'' then a @ b
      else a @ ''/'' @ b)"

section \<open>JSON values, exceptions and stored documents\<close>

text \<open>
  The Python value that \<open>json.load\<close> returns and \<open>json.dump\<close> writes. An object keeps its
  keys in insertion order. Numbers are integers: no path of the program computes with a
  number read from a document.
\<close>

datatype json =
    JNull
  | JBool bool
  | JInt int
  | JStr string
  | JArr "json list"
  | JObj "(string \<times> json) list"

text \<open>The three messages the endpoint puts into an \<open>HTTPException\<close>.\<close>

datatype detail =
    Invalid_JSON_RPC_request
  | Unknown_tool json
  | Unknown_method json

datatype exn =
    TypeError
  | KeyError
  | AttributeError
  | OSError
  | JSONDecodeError
  | UnicodeDecodeError
  | ProviderError string
  | HTTPException nat detail

text \<open>
  What opening and parsing \<open>papers_info.json\<close> gives. \<open>Missing\<close>: there is no file, and
  \<open>open\<close> raises \<open>FileNotFoundError\<close>. \<open>Unreadable\<close>: \<open>open\<close> or the read raises another
  error of the operating system. \<open>Undecodable\<close>: the bytes of the file are not UTF-8, and
  the read inside \<open>json.load\<close> raises \<open>UnicodeDecodeError\<close>, which is a \<open>ValueError\<close> and
  no \<open>json.JSONDecodeError\<close>. \<open>Malformed\<close>: the text is no JSON document, and
  \<open>json.load\<close> raises \<open>json.JSONDecodeError\<close>. \<open>Loaded v\<close>: the text parses to the
  value \<open>v\<close>.
\<close>

datatype file_state = Missing | Malformed | Undecodable | Unreadable | Loaded json

text \<open>\<open>k in v\<close>, \<open>v[k] = x\<close> and \<open>v[k]\<close> for a string \<open>k\<close> and a parsed JSON value \<open>v\<close>.\<close>

fun str_contains :: "string \<Rightarrow> string \<Rightarrow> bool" where
  "str_contains [] k = (k = [])"
| "str_contains (c # s) k = (take (length k) (c # s) = k \<or> str_contains s k)"

fun py_in :: "string \<Rightarrow> json \<Rightarrow> exn + bool" where
  "py_in k (JObj d) = Inr (k \<in> set (map fst d))"
| "py_in k (JArr xs) = Inr (JStr k \<in> set xs)"
| "py_in k (JStr s) = Inr (str_contains s k)"
| "py_in k JNull = Inl TypeError"
| "py_in k (JBool b) = Inl TypeError"
| "py_in k (JInt i) = Inl TypeError"

fun py_setitem :: "json \<Rightarrow> string \<Rightarrow> json \<Rightarrow> exn + json" where
  "py_setitem (JObj d) k x = Inr (JObj (AList.update k x d))"
| "py_setitem (JArr xs) k x = Inl TypeError"
| "py_setitem (JStr s) k x = Inl TypeError"
| "py_setitem JNull k x = Inl TypeError"
| "py_setitem (JBool b) k x = Inl TypeError"
| "py_setitem (JInt i) k x = Inl TypeError"

fun py_getitem :: "json \<Rightarrow> string \<Rightarrow> exn + json" where
  "py_getitem (JObj d) k = (case map_of d k of Some x \<Rightarrow> Inr x | None \<Rightarrow> Inl KeyError)"
| "py_getitem (JArr xs) k = Inl TypeError"
| "py_getitem (JStr s) k = Inl TypeError"
| "py_getitem JNull k = Inl TypeError"
| "py_getitem (JBool b) k = Inl TypeError"
| "py_getitem (JInt i) k = Inl TypeError"

fun json_opt :: "string option \<Rightarrow> json" where
  "json_opt None = JNull"
| "json_opt (Some s) = JStr s"

section \<open>search_papers\<close>

text \<open>
  The arguments of \<open>search_papers\<close>, and one result of the provider: \<open>short_id\<close> is what
  \<open>get_short_id()\<close> returns, \<open>published\<close> is \<open>str(paper.published.date())\<close>, and
  \<open>updated\<close> is \<open>None\<close> when \<open>paper.updated\<close> is false and its date string otherwise.
\<close>

record search_args =
  query :: string
  max_results :: int
  sort_by :: string
  sort_order :: string
  search_field :: string
  date_from :: "string option"
  date_to :: "string option"
  author_search :: "string option"

record paper =
  short_id :: string
  title :: string
  authors :: "string list"
  summary :: string
  pdf_url :: "string option"
  published :: string
  updated :: "string option"
  categories :: "string list"
  primary_category :: string
  entry_id :: string

text \<open>
  The dictionary that \<open>search_papers\<close> returns; \<open>search_parameters\<close> echoes the arguments
  (the source writes the query under the key \<open>original_query\<close>).
\<close>

record search_result =
  paper_ids :: "string list"
  total_found :: nat
  new_papers :: nat
  search_query :: string
  search_parameters :: search_args
  storage_path :: string
  message :: string

definition paper_info :: "search_args \<Rightarrow> paper \<Rightarrow> json" where
  "paper_info a p =
     JObj [(''title'', JStr (title p)),
           (''authors'', JArr (map JStr (authors p))),
           (''summary'', JStr (summary p)),
           (''pdf_url'', json_opt (pdf_url p)),
           (''published'', JStr (published p)),
           (''updated'', JStr (case updated p of Some u \<Rightarrow> u | None \<Rightarrow> published p)),
           (''categories'', JArr (map JStr (categories p))),
           (''primary_category'', JStr (primary_category p)),
           (''entry_id'', JStr (entry_id p)),
           (''search_params'',
              JObj [(''query'', JStr (query a)),
                    (''sort_by'', JStr (sort_by a)),
                    (''search_field'', JStr (search_field a)),
                    (''author_search'', json_opt (author_search a)),
                    (''date_range'',
                       if truthy (date_from a) \<or> truthy (date_to a)
                       then JStr (py_str (date_from a) @ '' to '' @ py_str (date_to a))
                       else JNull)])]"

text \<open>The \<open>try\<close> block that loads the stored document.\<close>

fun load_papers_info :: "file_state \<Rightarrow> exn + json" where
  "load_papers_info Missing = Inr (JObj [])"
| "load_papers_info Malformed = Inr (JObj [])"
| "load_papers_info Undecodable = Inl UnicodeDecodeError"
| "load_papers_info Unreadable = Inl OSError"
| "load_papers_info (Loaded v) = Inr v"

text \<open>
  The loop over the provider's results. The state is \<open>papers_info\<close>, \<open>paper_ids\<close> and
  \<open>new_papers_count\<close>.
\<close>

fun process_papers ::
  "search_args \<Rightarrow> paper list \<Rightarrow> json \<times> string list \<times> nat \<Rightarrow> exn + (json \<times> string list \<times> nat)" where
  "process_papers a [] st = Inr st"
| "process_papers a (p # ps) (info, ids, n) =
     (case py_in (short_id p) info of
        Inl e \<Rightarrow> Inl e
      | Inr present \<Rightarrow>
          if \<not> present then
            (case py_setitem info (short_id p) (paper_info a p) of
               Inl e \<Rightarrow> Inl e
             | Inr info' \<Rightarrow> process_papers a ps (info', ids @ [short_id p], Suc n))
          else process_papers a ps (info, ids @ [short_id p], n))"

text \<open>
  \<open>search_papers\<close> with its surroundings as arguments: the storage root \<open>PAPER_DIR\<close>, the
  provider \<open>client\<close> (the results it yields for a query, a limit and a sort, and the
  exception that ends the iteration, if any), and the store \<open>fs\<close>, which gives the state
  of the file at a path. The results are a lazy iterator, so the stored document is loaded
  before the first result is fetched, and nothing is written when an exception is raised.
\<close>

definition client_results ::
  "(string \<Rightarrow> int \<Rightarrow> SortCriterion \<Rightarrow> SortOrder \<Rightarrow> paper list \<times> exn option) \<Rightarrow>
   search_args \<Rightarrow> paper list \<times> exn option" where
  "client_results client a =
     client (final_query (query a) (search_field a) (author_search a) (date_from a) (date_to a))
       (max_results a) (sort_criterion (sort_by a)) (sort_order_enum (sort_order a))"

definition file_path :: "string \<Rightarrow> search_args \<Rightarrow> string" where
  "file_path PAPER_DIR a =
     path_join (path_join PAPER_DIR (query_slug (query a) (author_search a))) ''papers_info.json''"

definition search_papers ::
  "string \<Rightarrow> (string \<Rightarrow> int \<Rightarrow> SortCriterion \<Rightarrow> SortOrder \<Rightarrow> paper list \<times> exn option) \<Rightarrow>
   search_args \<Rightarrow> (string \<Rightarrow> file_state) \<Rightarrow> exn + (search_result \<times> (string \<Rightarrow> file_state))" where
  "search_papers PAPER_DIR client a fs =
     (case load_papers_info (fs (file_path PAPER_DIR a)) of
        Inl e \<Rightarrow> Inl e
      | Inr info \<Rightarrow>
          (case process_papers a (fst (client_results client a)) (info, [], 0) of
             Inl e \<Rightarrow> Inl e
           | Inr (info', ids, n) \<Rightarrow>
               (case snd (client_results client a) of
                  Some e \<Rightarrow> Inl e
                | None \<Rightarrow>
                    Inr (\<lparr>paper_ids = ids,
                          total_found = length ids,
                          new_papers = n,
                          search_query =
                            final_query (query a) (search_field a) (author_search a)
                              (date_from a) (date_to a),
                          search_parameters = a,
                          storage_path = file_path PAPER_DIR a,
                          message = ''Found '' @ str_nat (length ids) @ '' papers (''
                            @ str_nat n @ '' new). Results saved to '' @ file_path PAPER_DIR a\<rparr>,
                         fs(file_path PAPER_DIR a := Loaded info')))))"

section \<open>extract_info\<close>

text \<open>
  What \<open>extract_info\<close> sees of the storage root: \<open>None\<close> when the directory does not
  exist, otherwise the entries of \<open>os.listdir\<close> in its order, each one not a directory, a
  directory without \<open>papers_info.json\<close>, or a directory with that file in some state. The
  returned string is either a message or \<open>json.dumps\<close> of a stored value.
\<close>

datatype dir_entry = Not_a_directory | No_papers_info | Papers_info file_state

datatype reply = Message string | Json_dumps json

fun scan_items :: "string \<Rightarrow> (string \<times> dir_entry) list \<Rightarrow> exn + json option" where
  "scan_items pid [] = Inr None"
| "scan_items pid ((item, Not_a_directory) # rest) = scan_items pid rest"
| "scan_items pid ((item, No_papers_info) # rest) = scan_items pid rest"
| "scan_items pid ((item, Papers_info Missing) # rest) = scan_items pid rest"
| "scan_items pid ((item, Papers_info Malformed) # rest) = scan_items pid rest"
| "scan_items pid ((item, Papers_info Undecodable) # rest) = Inl UnicodeDecodeError"
| "scan_items pid ((item, Papers_info Unreadable) # rest) = Inl OSError"
| "scan_items pid ((item, Papers_info (Loaded v)) # rest) =
     (case py_in pid v of
        Inl e \<Rightarrow> Inl e
      | Inr present \<Rightarrow>
          if present then
            (case py_getitem v pid of Inl e \<Rightarrow> Inl e | Inr x \<Rightarrow> Inr (Some x))
          else scan_items pid rest)"

definition extract_info ::
  "string \<Rightarrow> (string \<times> dir_entry) list option \<Rightarrow> string \<Rightarrow> exn + reply" where
  "extract_info PAPER_DIR listing pid =
     (case listing of
        None \<Rightarrow>
          Inr (Message (''Papers directory '' @ PAPER_DIR
                 @ '' does not exist. No saved papers found.''))
      | Some items \<Rightarrow>
          (case scan_items pid items of
             Inl e \<Rightarrow> Inl e
           | Inr (Some x) \<Rightarrow> Inr (Json_dumps x)
           | Inr None \<Rightarrow> Inr (Message (''No saved information found for paper '' @ pid @ ''.''))))"

section \<open>The endpoint\<close>

text \<open>
  The POST handler. Its argument is what \<open>await request.json()\<close> gives (an exception or
  the parsed body), and \<open>run\<close> executes a tool on the forwarded arguments. A response is a
  \<open>JSONResponse\<close> with its content and status code, or an exception that leaves the
  handler. The content is one of the three dictionaries the handler builds: the list of
  tools, the text of a tool's result, or the error object with its code, message and the
  exception whose text is the data field.
\<close>

datatype tool = Search_papers | Search_by_author | Search_recent_papers | Extract_info

datatype 'r content =
    Tools_list json
  | Tool_text json 'r
  | Error_object json int string exn

datatype 'r response = JSONResponse "'r content" nat | Raised exn

fun json_get :: "json \<Rightarrow> string \<Rightarrow> json \<Rightarrow> exn + json" where
  "json_get (JObj d) k dflt = Inr (dict_get d k dflt)"
| "json_get (JArr xs) k dflt = Inl AttributeError"
| "json_get (JStr s) k dflt = Inl AttributeError"
| "json_get JNull k dflt = Inl AttributeError"
| "json_get (JBool b) k dflt = Inl AttributeError"
| "json_get (JInt i) k dflt = Inl AttributeError"

fun is_dict :: "json \<Rightarrow> bool" where
  "is_dict (JObj d) = True"
| "is_dict v = False"

text \<open>The body of the \<open>try\<close> block, once the request body is parsed.\<close>

definition try_block :: "(tool \<Rightarrow> json \<Rightarrow> exn + 'r) \<Rightarrow> json \<Rightarrow> exn + 'r response" where
  "try_block run body =
     (if \<not> is_dict body \<or> json_get body ''jsonrpc'' JNull \<noteq> Inr (JStr ''2.0'') then
        Inl (HTTPException 400 Invalid_JSON_RPC_request)
      else
        (case (json_get body ''method'' JNull, json_get body ''id'' JNull,
               json_get body ''params'' (JObj [])) of
           (Inr method, Inr request_id, Inr params) \<Rightarrow>
             if method = JStr ''tools/list'' then
               Inr (JSONResponse (Tools_list request_id) 200)
             else if method = JStr ''tools/call'' then
               (case json_get params ''name'' JNull of
                  Inl e \<Rightarrow> Inl e
                | Inr tool_name \<Rightarrow>
                    (case json_get params ''arguments'' (JObj []) of
                       Inl e \<Rightarrow> Inl e
                     | Inr arguments \<Rightarrow>
                         (case (if tool_name = JStr ''search_papers'' then
                                  run Search_papers arguments
                                else if tool_name = JStr ''search_by_author'' then
                                  run Search_by_author arguments
                                else if tool_name = JStr ''search_recent_papers'' then
                                  run Search_recent_papers arguments
                                else if tool_name = JStr ''extract_info'' then
                                  run Extract_info arguments
                                else Inl (HTTPException 400 (Unknown_tool tool_name))) of
                            Inl e \<Rightarrow> Inl e
                          | Inr result \<Rightarrow> Inr (JSONResponse (Tool_text request_id result) 200))))
             else Inl (HTTPException 400 (Unknown_method method))
         | _ \<Rightarrow> Inl AttributeError))"

text \<open>
  The handler \<open>except Exception as e\<close>: it reads \<open>body.get("id")\<close> when \<open>body\<close> is bound,
  which itself raises \<open>AttributeError\<close> when the body is not a dictionary.
\<close>

definition except_block :: "json option \<Rightarrow> exn \<Rightarrow> 'r response" where
  "except_block body e =
     (case body of
        None \<Rightarrow> JSONResponse (Error_object JNull (- 32603) ''Internal error'' e) 500
      | Some b \<Rightarrow>
          (case json_get b ''id'' JNull of
             Inl e' \<Rightarrow> Raised e'
           | Inr request_id \<Rightarrow>
               JSONResponse (Error_object request_id (- 32603) ''Internal error'' e) 500))"

definition mcp_endpoint :: "(tool \<Rightarrow> json \<Rightarrow> exn + 'r) \<Rightarrow> exn + json \<Rightarrow> 'r response" where
  "mcp_endpoint run request_json =
     (case request_json of
        Inl e \<Rightarrow> except_block None e
      | Inr body \<Rightarrow>
          (case try_block run body of
             Inl e \<Rightarrow> except_block (Some body) e
           | Inr r \<Rightarrow> r))"

section \<open>Notions used in the statements\<close>

text \<open>
  For an entry of the storage root: the topic document it holds, when its file parses to a
  JSON object, and whether the scan of \<open>extract_info\<close> handles it, that is, whether it is
  anything but a file that cannot be read or decoded or a file that parses to a value
  other than an object.
\<close>

fun topic_document :: "dir_entry \<Rightarrow> (string \<times> json) list option" where
  "topic_document (Papers_info (Loaded (JObj d))) = Some d"
| "topic_document e = None"

fun regular :: "dir_entry \<Rightarrow> bool" where
  "regular (Papers_info Unreadable) = False"
| "regular (Papers_info Undecodable) = False"
| "regular (Papers_info (Loaded v)) = is_dict v"
| "regular e = True"

text \<open>Arguments and provider results for the concrete instances.\<close>

abbreviation gan_args :: search_args where
  "gan_args \<equiv>
     \<lparr>query = ''gan'', max_results = 2, sort_by = ''relevance'', sort_order = ''descending'',
      search_field = ''all'', date_from = None, date_to = None, author_search = None\<rparr>"

abbreviation paper_A :: paper where
  "paper_A \<equiv>
     \<lparr>short_id = ''A'', title = ''First'', authors = [''Ada''], summary = ''s'', pdf_url = None,
      published = ''2024-01-01'', updated = None, categories = [''cs.LG''],
      primary_category = ''cs.LG'', entry_id = ''http://arxiv.org/abs/A''\<rparr>"

abbreviation paper_A_revised :: paper where
  "paper_A_revised \<equiv>
     \<lparr>short_id = ''A'', title = ''Revised'', authors = [''Ada''], summary = ''t'', pdf_url = None,
      published = ''2024-01-01'', updated = Some ''2024-02-02'', categories = [''cs.LG''],
      primary_category = ''cs.LG'', entry_id = ''http://arxiv.org/abs/A''\<rparr>"

abbreviation paper_B :: paper where
  "paper_B \<equiv>
     \<lparr>short_id = ''B'', title = ''Second'', authors = [], summary = ''u'', pdf_url = None,
      published = ''2024-01-03'', updated = None, categories = [],
      primary_category = ''cs.CV'', entry_id = ''http://arxiv.org/abs/B''\<rparr>"

section \<open>Auxiliary facts\<close>

lemmas query_defs = final_query_def search_query_parts_def field_prefix_def field_mapping_def
  dict_get_def str_lower_def lower_char_def upper_latin1_def lower_latin1_def str_replace_def

lemma str_replace_no_old: "old \<notin> set new \<Longrightarrow> old \<notin> set (str_replace old new s)"
  by (induction s) (auto simp: str_replace_def)

lemma length_str_lower: "length (str_lower s) = length s"
  by (simp add: str_lower_def)

lemma query_slug_length:
  "length (query_slug q au)
     \<le> 50 + (if truthy au then length (''_by_'' @ str_replace CHR '' '' ''_'' (py_str au)) else 0)"
  by (simp add: query_slug_def)

lemma set_str_replace: "set (str_replace old new s) \<subseteq> set s \<union> set new"
  by (induction s) (auto simp: str_replace_def)

lemma query_slug_no_separator:
  assumes "truthy au \<longrightarrow> CHR ''/'' \<notin> set (py_str au)"
  shows "CHR ''/'' \<notin> set (query_slug q au)"
proof -
  have "CHR ''/'' \<notin> set (str_replace CHR ''/'' ''_'' (str_replace CHR '' '' ''_'' (str_lower q)))"
    by (rule str_replace_no_old) simp
  then have a: "CHR ''/'' \<notin> set (take 50 (str_replace CHR ''/'' ''_'' (str_replace CHR '' '' ''_'' (str_lower q))))"
    by (auto dest: in_set_takeD)
  have b: "CHR ''/'' \<notin> set (str_replace CHR '' '' ''_'' (py_str au))" if "truthy au"
    using that assms set_str_replace [of "CHR '' ''" "''_''" "py_str au"] by auto
  show ?thesis using a b by (auto simp: query_slug_def)
qed

lemma update_append: "k \<notin> set (map fst d) \<Longrightarrow> AList.update k x d = d @ [(k, x)]"
  by (induction d) auto

lemma process_papers_dict:
  "\<exists>new. process_papers a ps (JObj d, ids, n)
            = Inr (JObj (d @ new), ids @ map short_id ps, n + length new)
     \<and> distinct (map fst new)
     \<and> set (map fst new) = set (map short_id ps) - set (map fst d)
     \<and> (\<forall>k \<in> set (map fst new).
           map_of new k = map_option (paper_info a) (find (\<lambda>p. short_id p = k) ps))"
proof (induction ps arbitrary: d ids n)
  case Nil
  show ?case by simp
next
  case (Cons p ps)
  show ?case
  proof (cases "short_id p \<in> set (map fst d)")
    case True
    from Cons.IH [of d "ids @ [short_id p]" n] obtain new where
      r: "process_papers a ps (JObj d, ids @ [short_id p], n)
            = Inr (JObj (d @ new), (ids @ [short_id p]) @ map short_id ps, n + length new)"
      and dn: "distinct (map fst new)"
      and ks: "set (map fst new) = set (map short_id ps) - set (map fst d)"
      and vs: "\<forall>k \<in> set (map fst new).
           map_of new k = map_option (paper_info a) (find (\<lambda>p. short_id p = k) ps)"
      by blast
    have 1: "process_papers a (p # ps) (JObj d, ids, n)
            = Inr (JObj (d @ new), ids @ map short_id (p # ps), n + length new)"
      using True r by simp
    have 2: "set (map fst new) = set (map short_id (p # ps)) - set (map fst d)"
      using True ks by auto
    have 3: "\<forall>k \<in> set (map fst new).
           map_of new k = map_option (paper_info a) (find (\<lambda>p. short_id p = k) (p # ps))"
    proof
      fix k assume k: "k \<in> set (map fst new)"
      then have "k \<notin> set (map fst d)" using ks by blast
      then have "short_id p \<noteq> k" using True by blast
      moreover from vs k
      have "map_of new k = map_option (paper_info a) (find (\<lambda>p. short_id p = k) ps)"
        by blast
      ultimately
      show "map_of new k = map_option (paper_info a) (find (\<lambda>p. short_id p = k) (p # ps))"
        by simp
    qed
    show ?thesis using 1 dn 2 3 by blast
  next
    case False
    let ?d = "d @ [(short_id p, paper_info a p)]"
    from Cons.IH [of ?d "ids @ [short_id p]" "Suc n"] obtain new where
      r: "process_papers a ps (JObj ?d, ids @ [short_id p], Suc n)
            = Inr (JObj (?d @ new), (ids @ [short_id p]) @ map short_id ps, Suc n + length new)"
      and dn: "distinct (map fst new)"
      and ks: "set (map fst new) = set (map short_id ps) - set (map fst ?d)"
      and vs: "\<forall>k \<in> set (map fst new).
           map_of new k = map_option (paper_info a) (find (\<lambda>p. short_id p = k) ps)"
      by blast
    let ?new = "(short_id p, paper_info a p) # new"
    have 1: "process_papers a (p # ps) (JObj d, ids, n)
            = Inr (JObj (d @ ?new), ids @ map short_id (p # ps), n + length ?new)"
      using False r by (simp add: update_append)
    have 0: "distinct (map fst ?new)" using dn ks by auto
    have 2: "set (map fst ?new) = set (map short_id (p # ps)) - set (map fst d)"
      using False ks by auto
    have 3: "\<forall>k \<in> set (map fst ?new).
           map_of ?new k = map_option (paper_info a) (find (\<lambda>p. short_id p = k) (p # ps))"
    proof
      fix k assume k: "k \<in> set (map fst ?new)"
      show "map_of ?new k = map_option (paper_info a) (find (\<lambda>p. short_id p = k) (p # ps))"
      proof (cases "k = short_id p")
        case True then show ?thesis by simp
      next
        case False
        then have "k \<in> set (map fst new)" using k by auto
        with vs have "map_of new k = map_option (paper_info a) (find (\<lambda>p. short_id p = k) ps)"
          by blast
        then show ?thesis using False by simp
      qed
    qed
    show ?thesis using 1 0 2 3 by blast
  qed
qed

lemma process_papers_present:
  "\<forall>p \<in> set ps. py_in (short_id p) info = Inr True \<Longrightarrow>
   process_papers a ps (info, ids, n) = Inr (info, ids @ map short_id ps, n)"
  by (induction ps arbitrary: ids n) auto

lemma process_papers_other:
  "\<not> is_dict info \<Longrightarrow> process_papers a ps (info, ids, n) = Inr (info', ids', n') \<Longrightarrow>
   info' = info \<and> (\<forall>p \<in> set ps. py_in (short_id p) info = Inr True)"
proof (induction ps arbitrary: ids n)
  case Nil
  then show ?case by simp
next
  case (Cons p ps)
  then show ?case
    by (cases info) (auto split: sum.splits if_splits)
qed

lemma process_papers_all_present:
  assumes "process_papers a ps (info, ids, n) = Inr (info', ids', n')"
  shows "\<forall>p \<in> set ps. py_in (short_id p) info' = Inr True"
proof (cases "is_dict info")
  case True
  then obtain d where d: "info = JObj d" by (cases info) auto
  from process_papers_dict [of a ps d ids n] obtain new where
    "process_papers a ps (JObj d, ids, n) = Inr (JObj (d @ new), ids @ map short_id ps, n + length new)"
    and ks: "set (map fst new) = set (map short_id ps) - set (map fst d)" by blast
  with assms d have "info' = JObj (d @ new)" by simp
  then show ?thesis using ks by auto
next
  case False
  from process_papers_other [OF False assms] show ?thesis by simp
qed

lemma process_papers_ids:
  "process_papers a ps (info, ids, n) = Inr (info', ids', n') \<Longrightarrow> ids' = ids @ map short_id ps"
proof (induction ps arbitrary: info ids n)
  case Nil
  then show ?case by simp
next
  case (Cons p ps)
  from Cons.prems obtain info1 n1 where
    "process_papers a ps (info1, ids @ [short_id p], n1) = Inr (info', ids', n')"
    by (auto split: sum.splits if_splits)
  from Cons.IH [OF this] show ?case by simp
qed

lemma search_papers_dict:
  assumes l: "load_papers_info (fs (file_path D a)) = Inr (JObj d)"
    and c: "client_results client a = (ps, None)"
  shows "\<exists>r new. search_papers D client a fs
             = Inr (r, fs(file_path D a := Loaded (JObj (d @ new))))
     \<and> paper_ids r = map short_id ps \<and> total_found r = length ps \<and> new_papers r = length new
     \<and> distinct (map fst new)
     \<and> set (map fst new) = set (map short_id ps) - set (map fst d)
     \<and> (\<forall>k \<in> set (map fst new).
           map_of new k = map_option (paper_info a) (find (\<lambda>p. short_id p = k) ps))"
proof -
  from process_papers_dict [of a ps d "[]" 0] obtain new where
    r0: "process_papers a ps (JObj d, [], 0)
           = Inr (JObj (d @ new), [] @ map short_id ps, 0 + length new)"
    and p: "distinct (map fst new)"
      "set (map fst new) = set (map short_id ps) - set (map fst d)"
      "\<forall>k \<in> set (map fst new).
           map_of new k = map_option (paper_info a) (find (\<lambda>p. short_id p = k) ps)"
    by blast
  from r0 have
    r: "process_papers a ps (JObj d, [], 0) = Inr (JObj (d @ new), map short_id ps, length new)"
    by simp
  have "\<exists>r. search_papers D client a fs = Inr (r, fs(file_path D a := Loaded (JObj (d @ new))))
     \<and> paper_ids r = map short_id ps \<and> total_found r = length ps \<and> new_papers r = length new"
    using l c r by (simp add: search_papers_def)
  with p show ?thesis by blast
qed

lemma scan_items_skip:
  assumes "\<forall>e \<in> set (map snd pre). regular e"
    and "\<forall>e \<in> set (map snd pre). \<forall>d. topic_document e = Some d \<longrightarrow> pid \<notin> set (map fst d)"
  shows "scan_items pid (pre @ rest) = scan_items pid rest"
  using assms
proof (induction pre)
  case Nil
  show ?case by simp
next
  case (Cons ie pre)
  obtain item e where ie: "ie = (item, e)" by (cases ie)
  from Cons.prems have reg: "regular e"
    and nd: "\<forall>d. topic_document e = Some d \<longrightarrow> pid \<notin> set (map fst d)"
    using ie by auto
  have ih: "scan_items pid (pre @ rest) = scan_items pid rest"
    using Cons by simp
  show ?case
  proof (cases e)
    case (Papers_info st)
    show ?thesis
    proof (cases st)
      case (Loaded v)
      with reg Papers_info obtain d where v: "v = JObj d" by (cases v) auto
      with nd Papers_info Loaded have "pid \<notin> set (map fst d)" by simp
      then show ?thesis using ie Papers_info Loaded v ih by simp
    qed (use ie Papers_info reg ih in auto)
  qed (use ie ih in auto)
qed

lemma try_block_status: "try_block run body = Inr r \<Longrightarrow> \<exists>c. r = JSONResponse c 200"
  by (auto simp: try_block_def split: if_splits sum.splits prod.splits)

lemma mcp_endpoint_status:
  assumes "mcp_endpoint run req = JSONResponse c st"
  shows "st = 200 \<or> (st = 500 \<and> (\<exists>i e. c = Error_object i (- 32603) ''Internal error'' e))"
  using assms try_block_status [of run]
  by (fastforce simp: mcp_endpoint_def except_block_def split: sum.splits)

lemmas path_defs = file_path_def path_join_def query_slug_def str_lower_def lower_char_def upper_latin1_def lower_latin1_def
  str_replace_def dict_get_def

lemma field_prefix_table:
  "hd (search_query_parts q ''title'' au df dt) = ''ti:'' @ q
   \<and> hd (search_query_parts q ''author'' au df dt) = ''au:'' @ q
   \<and> hd (search_query_parts q ''abstract'' au df dt) = ''abs:'' @ q
   \<and> hd (search_query_parts q ''category'' au df dt) = ''cat:'' @ q
   \<and> hd (search_query_parts q ''comment'' au df dt) = ''co:'' @ q
   \<and> hd (search_query_parts q ''journal'' au df dt) = ''jr:'' @ q
   \<and> hd (search_query_parts q ''all'' au df dt) = q"
  by (simp add: query_defs)

section \<open>Properties of the query builder\<close>

text \<open>
  C3. For \<open>search_field = "title"\<close> and \<open>query = "neural nets"\<close> the provider query is
  \<open>"ti:neural nets"\<close>; with the author \<open>"Jane Doe"\<close> it is
  \<open>"ti:neural nets AND au:jane_doe"\<close>; with the dates \<open>"20240101"\<close> and \<open>"20240131"\<close> the
  clause \<open>submittedDate:[202401010000 TO 202401312359]\<close> is appended. For every request the
  clauses that are present are joined by \<open>" AND "\<close> in the order term, author, date, and a
  date bound that is absent is rendered as \<open>*\<close>. An argument is present when it is neither
  \<open>None\<close> nor the empty string.
\<close>

theorem query_construction:
  "final_query ''neural nets'' ''title'' None None None = ''ti:neural nets''
   \<and> final_query ''neural nets'' ''title'' (Some ''Jane Doe'') None None
       = ''ti:neural nets AND au:jane_doe''
   \<and> final_query ''neural nets'' ''title'' (Some ''Jane Doe'') (Some ''20240101'') (Some ''20240131'')
       = ''ti:neural nets AND au:jane_doe AND submittedDate:[202401010000 TO 202401312359]''
   \<and> (\<forall>q sf au df dt.
        final_query q sf au df dt =
          (if field_prefix sf = ''all'' then q else field_prefix sf @ '':'' @ q)
          @ (if truthy au then '' AND au:'' @ str_lower (str_replace CHR '' '' ''_'' (py_str au))
             else [])
          @ (if truthy df \<or> truthy dt then
               '' AND submittedDate:['' @ (if truthy df then py_str df @ ''0000'' else ''*'')
               @ '' TO '' @ (if truthy dt then py_str dt @ ''2359'' else ''*'') @ '']''
             else []))"
proof (intro conjI allI)
  show "final_query ''neural nets'' ''title'' None None None = ''ti:neural nets''"
    by (simp add: query_defs)
  show "final_query ''neural nets'' ''title'' (Some ''Jane Doe'') None None
       = ''ti:neural nets AND au:jane_doe''"
    by (simp add: query_defs)
  show "final_query ''neural nets'' ''title'' (Some ''Jane Doe'') (Some ''20240101'') (Some ''20240131'')
       = ''ti:neural nets AND au:jane_doe AND submittedDate:[202401010000 TO 202401312359]''"
    by (simp add: query_defs)
next
  fix q sf au df dt
  show "final_query q sf au df dt =
          (if field_prefix sf = ''all'' then q else field_prefix sf @ '':'' @ q)
          @ (if truthy au then '' AND au:'' @ str_lower (str_replace CHR '' '' ''_'' (py_str au))
             else [])
          @ (if truthy df \<or> truthy dt then
               '' AND submittedDate:['' @ (if truthy df then py_str df @ ''0000'' else ''*'')
               @ '' TO '' @ (if truthy dt then py_str dt @ ''2359'' else ''*'') @ '']''
             else [])"
    by (simp add: final_query_def search_query_parts_def)
qed

theorem query_construction_witness:
  "final_query ''gan'' ''all'' (Some '''') None (Some ''20240131'')
     = ''gan AND submittedDate:[* TO 202401312359]''"
  using query_construction [THEN conjunct2, THEN conjunct2, THEN conjunct2, rule_format,
    of "''gan''" "''all''" "Some ''''" None "Some ''20240131''"]
  by (simp add: field_prefix_def field_mapping_def dict_get_def str_lower_def lower_char_def upper_latin1_def lower_latin1_def)

text \<open>
  C4. Every field of the enumeration other than \<open>all\<close> puts its code before the raw query:
  \<open>title\<close>, \<open>author\<close>, \<open>abstract\<close>, \<open>category\<close>, \<open>comment\<close> and \<open>journal_ref\<close> give
  \<open>ti:\<close>, \<open>au:\<close>, \<open>abs:\<close>, \<open>cat:\<close>, \<open>co:\<close> and \<open>jr:\<close>. The class \<open>SearchField\<close> of the
  source names the field \<open>JOURNAL_REF\<close> with the code \<open>jr\<close>, but the key of
  \<open>field_mapping\<close> for that code is \<open>journal\<close>: at the field \<open>journal_ref\<close> the lookup
  falls back to \<open>all\<close> and the query goes out without a prefix. The other five fields, and
  the key \<open>journal\<close>, are prefixed as \<open>field_prefix_table\<close> states.
\<close>

theorem journal_ref_unprefixed:
  "final_query ''graphene'' ''journal_ref'' None None None = ''graphene''
   \<and> final_query ''graphene'' ''journal_ref'' None None None \<noteq> ''jr:graphene''"
  by (simp add: query_defs)

text \<open>
  C9. A \<open>sort_by\<close> that, in lower case and without underscores, is no key of the criterion
  table resolves to relevance, and a \<open>sort_order\<close> that, in lower case, is no key of the
  order table resolves to descending. Both resolutions are total functions: no string makes
  them raise.
\<close>

theorem lenient_sort_resolution:
  "(str_replace CHR ''_'' [] (str_lower sb) \<notin>
      {''relevance'', ''submitted'', ''submitteddate'', ''updated'', ''lastupdated'',
       ''lastupdateddate''}
    \<longrightarrow> sort_criterion sb = Relevance)
   \<and> (str_lower so \<notin> {''desc'', ''descending'', ''asc'', ''ascending''}
    \<longrightarrow> sort_order_enum so = Descending)"
  by (simp add: sort_criterion_def sort_mapping_def sort_order_enum_def order_mapping_def dict_get_def)

theorem lenient_sort_resolution_witness:
  "sort_criterion ''newest'' = Relevance \<and> sort_order_enum ''up'' = Descending"
  using lenient_sort_resolution [of "''newest''" "''up''"]
  by (simp add: str_lower_def lower_char_def upper_latin1_def lower_latin1_def str_replace_def dict_get_def)

text \<open>
  C5. The slug is a function of the query and the author filter, it contains no path
  separator, and it is at most 50 characters long plus the author suffix. The length bound
  and the absence of a separator in the part made from the query are
  \<open>query_slug_length\<close> and \<open>query_slug_no_separator\<close>. The author suffix only has its
  spaces replaced: at the query \<open>gan\<close> with the author \<open>a/b\<close> the slash of the author
  reaches the slug.
\<close>

theorem slug_author_separator:
  "query_slug ''gan'' (Some ''a/b'') = ''gan_by_a/b''
   \<and> CHR ''/'' \<in> set (query_slug ''gan'' (Some ''a/b''))"
  by (simp add: query_slug_def query_defs)

section \<open>Properties of the result cache merger\<close>

text \<open>
  C1. When the stored topic document is the object \<open>d\<close> and the provider yields the
  records \<open>ps\<close>, \<open>search_papers\<close> returns and stores \<open>d\<close> followed by new entries: the keys
  of the new entries are the returned identifiers that are no key of \<open>d\<close>, and every key of
  \<open>d\<close> keeps its stored value, whatever the attributes of the returned record with that
  identifier are.
\<close>

theorem first_write_wins:
  assumes "fs (file_path D a) = Loaded (JObj d)"
    and "client_results client a = (ps, None)"
  shows "\<exists>r new. search_papers D client a fs
             = Inr (r, fs(file_path D a := Loaded (JObj (d @ new))))
     \<and> set (map fst new) = set (map short_id ps) - set (map fst d)
     \<and> (\<forall>k \<in> set (map fst d). map_of (d @ new) k = map_of d k)"
proof -
  from assms(1) have l: "load_papers_info (fs (file_path D a)) = Inr (JObj d)" by simp
  from search_papers_dict [where fs = fs and D = D, OF l assms(2)] obtain r new where
    s: "search_papers D client a fs = Inr (r, fs(file_path D a := Loaded (JObj (d @ new))))"
    and k: "set (map fst new) = set (map short_id ps) - set (map fst d)"
    by blast
  have "\<forall>k \<in> set (map fst d). map_of (d @ new) k = map_of d k"
  proof
    fix k assume "k \<in> set (map fst d)"
    then obtain x where "map_of d k = Some x"
      by (metis map_of_eq_None_iff not_Some_eq set_map)
    then show "map_of (d @ new) k = map_of d k"
      by (simp add: map_add_Some_iff)
  qed
  with s k show ?thesis by blast
qed

theorem first_write_wins_witness:
  "\<exists>r new.
     search_papers ''papers'' (\<lambda>q m sc so. ([paper_A_revised, paper_B], None)) gan_args
       ((\<lambda>p. Missing)(''papers/gan/papers_info.json'' := Loaded (JObj [(''A'', JStr ''kept'')])))
     = Inr (r, (\<lambda>p. Missing)(''papers/gan/papers_info.json'' :=
                 Loaded (JObj ([(''A'', JStr ''kept'')] @ new))))
     \<and> set (map fst new) = {''B''}
     \<and> map_of ([(''A'', JStr ''kept'')] @ new) ''A'' = Some (JStr ''kept'')"
proof -
  let ?fs = "(\<lambda>p. Missing)(''papers/gan/papers_info.json'' := Loaded (JObj [(''A'', JStr ''kept'')]))"
  let ?client = "\<lambda>q m sc so. ([paper_A_revised, paper_B], None :: exn option)"
  have p: "file_path ''papers'' gan_args = ''papers/gan/papers_info.json''"
    by (simp add: path_defs)
  have h1: "?fs (file_path ''papers'' gan_args) = Loaded (JObj [(''A'', JStr ''kept'')])"
    by (simp add: p)
  have h2: "client_results ?client gan_args = ([paper_A_revised, paper_B], None)"
    by (simp add: client_results_def)
  from first_write_wins [where fs = ?fs and D = "''papers''", OF h1 h2]
  show ?thesis by (simp add: p insert_Diff_if)
qed

text \<open>
  C2. When a call of \<open>search_papers\<close> has returned, the same call on the store it left
  returns again, leaves that store as it is, and reports no new paper and the same
  identifiers.
\<close>

theorem merge_idempotent:
  assumes "search_papers D client a fs = Inr (r1, fs1)"
  shows "\<exists>r2. search_papers D client a fs1 = Inr (r2, fs1)
     \<and> new_papers r2 = 0 \<and> paper_ids r2 = paper_ids r1 \<and> total_found r2 = total_found r1"
proof -
  let ?ps = "fst (client_results client a)"
  from assms obtain info info' ids n where
    l: "load_papers_info (fs (file_path D a)) = Inr info"
    and p: "process_papers a ?ps (info, [], 0) = Inr (info', ids, n)"
    and c: "snd (client_results client a) = None"
    and f: "fs1 = fs(file_path D a := Loaded info')"
    and i: "paper_ids r1 = ids" "total_found r1 = length ids"
    by (auto simp: search_papers_def split: sum.splits option.splits)
  have ids: "ids = map short_id ?ps" using process_papers_ids [OF p] by simp
  have "\<forall>p \<in> set ?ps. py_in (short_id p) info' = Inr True"
    using process_papers_all_present [OF p] .
  then have p2: "process_papers a ?ps (info', [], 0) = Inr (info', [] @ map short_id ?ps, 0)"
    by (rule process_papers_present)
  have l2: "load_papers_info (fs1 (file_path D a)) = Inr info'" using f by simp
  have f2: "fs1(file_path D a := Loaded info') = fs1" using f by simp
  show ?thesis using l2 p2 c f2 i ids by (simp add: search_papers_def)
qed

theorem merge_idempotent_witness:
  "\<exists>r1 fs1 r2.
     search_papers ''papers'' (\<lambda>q m sc so. ([paper_A, paper_B], None)) gan_args (\<lambda>p. Missing)
       = Inr (r1, fs1)
     \<and> new_papers r1 = 2
     \<and> search_papers ''papers'' (\<lambda>q m sc so. ([paper_A, paper_B], None)) gan_args fs1 = Inr (r2, fs1)
     \<and> new_papers r2 = 0"
proof -
  let ?client = "\<lambda>q m sc so. ([paper_A, paper_B], None :: exn option)"
  obtain r1 fs1 where
    h: "search_papers ''papers'' ?client gan_args (\<lambda>p. Missing) = Inr (r1, fs1)"
    and n: "new_papers r1 = 2"
    by (simp add: search_papers_def client_results_def)
  from merge_idempotent [OF h] obtain r2 where
    "search_papers ''papers'' ?client gan_args fs1 = Inr (r2, fs1)" "new_papers r2 = 0"
    by blast
  with h n show ?thesis by blast
qed

text \<open>
  When the stored topic document is missing or raises \<open>json.JSONDecodeError\<close>,
  \<open>search_papers\<close> gives the result and the store it gives when the document is the empty
  object: the call returns when the provider yields its results without an exception,
  and raises the provider's exception otherwise.
\<close>

lemma permissive_cache_load:
  assumes "fs (file_path D a) = Missing \<or> fs (file_path D a) = Malformed"
  shows "search_papers D client a fs
           = search_papers D client a (fs(file_path D a := Loaded (JObj [])))
     \<and> (case snd (client_results client a) of
          None \<Rightarrow> \<exists>r fs'. search_papers D client a fs = Inr (r, fs')
        | Some e \<Rightarrow> search_papers D client a fs = Inl e)"
proof -
  have l: "load_papers_info (fs (file_path D a)) = Inr (JObj [])"
    using assms by auto
  have 1: "search_papers D client a fs
           = search_papers D client a (fs(file_path D a := Loaded (JObj [])))"
    using l by (simp add: search_papers_def split: sum.splits prod.splits option.splits)
  obtain ps ex where c: "client_results client a = (ps, ex)"
    by (cases "client_results client a")
  from process_papers_dict [of a ps "[]" "[]" 0] obtain new where
    "process_papers a ps (JObj [], [], 0) = Inr (JObj ([] @ new), [] @ map short_id ps, 0 + length new)"
    by blast
  then have r: "process_papers a ps (JObj [], [], 0) = Inr (JObj new, map short_id ps, length new)"
    by simp
  have 2: "case snd (client_results client a) of
          None \<Rightarrow> \<exists>r fs'. search_papers D client a fs = Inr (r, fs')
        | Some e \<Rightarrow> search_papers D client a fs = Inl e"
    using l r c by (simp add: search_papers_def split: option.splits)
  from 1 2 show ?thesis by blast
qed

lemma permissive_cache_load_instance:
  "search_papers ''papers'' (\<lambda>q m sc so. ([paper_A], None)) gan_args (\<lambda>p. Malformed)
     = search_papers ''papers'' (\<lambda>q m sc so. ([paper_A], None)) gan_args
         ((\<lambda>p. Malformed)(file_path ''papers'' gan_args := Loaded (JObj [])))
   \<and> (\<exists>r fs'. search_papers ''papers'' (\<lambda>q m sc so. ([paper_A], None)) gan_args (\<lambda>p. Malformed)
               = Inr (r, fs'))"
proof -
  have h: "(\<lambda>p. Malformed) (file_path ''papers'' gan_args) = Missing
           \<or> (\<lambda>p. Malformed) (file_path ''papers'' gan_args) = Malformed"
    by simp
  note t = permissive_cache_load [where fs = "\<lambda>p. Malformed" and D = "''papers''"
      and a = gan_args and client = "\<lambda>q m sc so. ([paper_A], None)", OF h]
  note t2 = t [THEN conjunct2]
  from t2 have "\<exists>r fs'. search_papers ''papers'' (\<lambda>q m sc so. ([paper_A], None)) gan_args
                 (\<lambda>p. Malformed) = Inr (r, fs')"
    by (simp add: client_results_def)
  with t show ?thesis by blast
qed

text \<open>
  C7. When the stored topic document is missing or is not well-formed JSON,
  \<open>search_papers\<close> goes on as with the empty object and no failure of the load reaches the
  caller. The \<open>except\<close> clause names \<open>FileNotFoundError\<close> and \<open>json.JSONDecodeError\<close>
  only. The source writes the document with \<open>ensure_ascii=False\<close>, so a write that is cut
  inside a character leaves bytes that are not UTF-8: such a file is not well-formed
  JSON, the read raises \<open>UnicodeDecodeError\<close>, and the exception leaves \<open>search_papers\<close>,
  whatever the provider returns, while the same call on the empty object returns.
\<close>

theorem undecodable_document_propagates:
  "search_papers ''papers'' (\<lambda>q m sc so. ([paper_A], None)) gan_args
     ((\<lambda>p. Missing)(''papers/gan/papers_info.json'' := Undecodable))
     = Inl UnicodeDecodeError
   \<and> (\<exists>r fs'. search_papers ''papers'' (\<lambda>q m sc so. ([paper_A], None)) gan_args
         ((\<lambda>p. Missing)(''papers/gan/papers_info.json'' := Loaded (JObj [])))
         = Inr (r, fs'))
   \<and> search_papers D client a (fs(file_path D a := Undecodable)) = Inl UnicodeDecodeError"
proof (intro conjI)
  have p: "file_path ''papers'' gan_args = ''papers/gan/papers_info.json''"
    by (simp add: path_defs)
  show "search_papers ''papers'' (\<lambda>q m sc so. ([paper_A], None)) gan_args
     ((\<lambda>p. Missing)(''papers/gan/papers_info.json'' := Undecodable))
     = Inl UnicodeDecodeError"
    by (simp add: search_papers_def p)
  show "\<exists>r fs'. search_papers ''papers'' (\<lambda>q m sc so. ([paper_A], None)) gan_args
         ((\<lambda>p. Missing)(''papers/gan/papers_info.json'' := Loaded (JObj [])))
         = Inr (r, fs')"
    by (simp add: search_papers_def client_results_def p)
  show "search_papers D client a (fs(file_path D a := Undecodable)) = Inl UnicodeDecodeError"
    by (simp add: search_papers_def)
qed



section \<open>Properties of the lookup by identifier\<close>

text \<open>
  Let every entry of the storage root be one that the scan handles. When exactly one
  topic document has the identifier as a key, \<open>extract_info\<close> returns the value stored
  there, whatever other entries there are: other topic documents, files that raise
  \<open>json.JSONDecodeError\<close>, directories without a file, entries that are no directory. When
  no topic document has the identifier as a key, or the storage root does not exist,
  \<open>extract_info\<close> returns a message.
\<close>

lemma lookup_by_identifier:
  assumes "\<forall>e \<in> set (map snd items). regular e"
  shows "(\<forall>pre name d post x.
            items = pre @ (name, Papers_info (Loaded (JObj d))) # post
            \<and> map_of d pid = Some x
            \<and> (\<forall>e \<in> set (map snd (pre @ post)).
                 \<forall>d'. topic_document e = Some d' \<longrightarrow> pid \<notin> set (map fst d'))
            \<longrightarrow> extract_info D (Some items) pid = Inr (Json_dumps x))
     \<and> ((\<forall>e \<in> set (map snd items).
            \<forall>d'. topic_document e = Some d' \<longrightarrow> pid \<notin> set (map fst d'))
          \<longrightarrow> extract_info D (Some items) pid
                = Inr (Message (''No saved information found for paper '' @ pid @ ''.'')))
     \<and> extract_info D None pid
          = Inr (Message (''Papers directory '' @ D @ '' does not exist. No saved papers found.''))"
proof (intro conjI allI impI)
  fix pre name d post x
  assume h: "items = pre @ (name, Papers_info (Loaded (JObj d))) # post
            \<and> map_of d pid = Some x
            \<and> (\<forall>e \<in> set (map snd (pre @ post)).
                 \<forall>d'. topic_document e = Some d' \<longrightarrow> pid \<notin> set (map fst d'))"
  have a: "\<forall>e \<in> set (map snd pre). regular e" using assms h by auto
  have b: "\<forall>e \<in> set (map snd pre). \<forall>d'. topic_document e = Some d' \<longrightarrow> pid \<notin> set (map fst d')"
    using h by auto
  have k: "pid \<in> set (map fst d)" using h by (auto dest: map_of_SomeD intro: rev_image_eqI)
  have "scan_items pid items = scan_items pid ((name, Papers_info (Loaded (JObj d))) # post)"
    using scan_items_skip [OF a b] h by simp
  also have "\<dots> = Inr (Some x)" using k h by simp
  finally show "extract_info D (Some items) pid = Inr (Json_dumps x)"
    by (simp add: extract_info_def)
next
  assume b: "\<forall>e \<in> set (map snd items).
            \<forall>d'. topic_document e = Some d' \<longrightarrow> pid \<notin> set (map fst d')"
  have "scan_items pid (items @ []) = scan_items pid []"
    using scan_items_skip [OF assms b] .
  then show "extract_info D (Some items) pid
                = Inr (Message (''No saved information found for paper '' @ pid @ ''.''))"
    by (simp add: extract_info_def)
next
  show "extract_info D None pid
          = Inr (Message (''Papers directory '' @ D @ '' does not exist. No saved papers found.''))"
    by (simp add: extract_info_def)
qed

lemma lookup_by_identifier_instance:
  "extract_info ''papers''
     (Some [(''broken'', Papers_info Malformed),
            (''gan'', Papers_info (Loaded (JObj [(''A'', JStr ''record'')]))),
            (''notes.txt'', Not_a_directory)]) ''A''
     = Inr (Json_dumps (JStr ''record''))
   \<and> extract_info ''papers''
     (Some [(''broken'', Papers_info Malformed),
            (''gan'', Papers_info (Loaded (JObj [(''A'', JStr ''record'')]))),
            (''notes.txt'', Not_a_directory)]) ''Z''
     = Inr (Message ''No saved information found for paper Z.'')"
proof -
  let ?items = "[(''broken'', Papers_info Malformed),
            (''gan'', Papers_info (Loaded (JObj [(''A'', JStr ''record'')]))),
            (''notes.txt'', Not_a_directory)]"
  have reg: "\<forall>e \<in> set (map snd ?items). regular e" by simp
  have 1: "extract_info ''papers'' (Some ?items) ''A'' = Inr (Json_dumps (JStr ''record''))"
    using lookup_by_identifier [OF reg, of "''A''" "''papers''", THEN conjunct1, rule_format,
      of "[(''broken'', Papers_info Malformed)]" "''gan''" "[(''A'', JStr ''record'')]"
         "[(''notes.txt'', Not_a_directory)]" "JStr ''record''"]
    by simp
  have 2: "extract_info ''papers'' (Some ?items) ''Z''
             = Inr (Message ''No saved information found for paper Z.'')"
    using lookup_by_identifier [OF reg, of "''Z''" "''papers''", THEN conjunct2, THEN conjunct1]
    by simp
  from 1 2 show ?thesis by blast
qed

text \<open>
  C8. An identifier in exactly one well-formed topic document is found whatever other
  documents there are, malformed ones being skipped, and an identifier in no document
  gives the not-found message and no exception. The scan catches \<open>FileNotFoundError\<close>
  and \<open>json.JSONDecodeError\<close> only. A document that parses to \<open>null\<close>, one that parses
  to an array holding the identifier, and one whose bytes are not UTF-8 are malformed
  topic documents that it does not skip: with such a document listed before the topic
  document that holds the identifier \<open>A\<close>, the lookup of \<open>A\<close> raises, and so does the
  lookup of an identifier \<open>Z\<close> that no document holds.
\<close>

theorem lookup_raises_on_malformed_document:
  "extract_info ''papers''
     (Some [(''broken'', Papers_info (Loaded JNull)),
            (''gan'', Papers_info (Loaded (JObj [(''A'', JStr ''record'')])))]) ''A''
     = Inl TypeError
   \<and> extract_info ''papers''
     (Some [(''broken'', Papers_info (Loaded JNull)),
            (''gan'', Papers_info (Loaded (JObj [(''A'', JStr ''record'')])))]) ''Z''
     = Inl TypeError
   \<and> extract_info ''papers''
     (Some [(''list'', Papers_info (Loaded (JArr [JStr ''A'']))),
            (''gan'', Papers_info (Loaded (JObj [(''A'', JStr ''record'')])))]) ''A''
     = Inl TypeError
   \<and> extract_info ''papers''
     (Some [(''cut'', Papers_info Undecodable),
            (''gan'', Papers_info (Loaded (JObj [(''A'', JStr ''record'')])))]) ''A''
     = Inl UnicodeDecodeError
   \<and> extract_info ''papers''
     (Some [(''cut'', Papers_info Undecodable),
            (''gan'', Papers_info (Loaded (JObj [(''A'', JStr ''record'')])))]) ''Z''
     = Inl UnicodeDecodeError
   \<and> extract_info ''papers''
     (Some [(''gan'', Papers_info (Loaded (JObj [(''A'', JStr ''record'')])))]) ''A''
     = Inr (Json_dumps (JStr ''record''))"
  by (simp add: extract_info_def)

section \<open>Properties of the endpoint\<close>

text \<open>
  C6. A request that is not shaped as JSON-RPC 2.0, one whose method is neither
  \<open>tools/list\<close> nor \<open>tools/call\<close>, and a \<open>tools/call\<close> of an unknown tool are meant to be
  answered with a client error, and only an exception of a tool with the error object of
  code \<open>-32603\<close>. The handler raises \<open>HTTPException\<close> with status 400 inside its own
  \<open>try\<close> block, whose \<open>except Exception\<close> catches it: each of the three requests below is
  answered with status 500 and the error object of code \<open>-32603\<close>, for every behaviour of
  the tools. By \<open>mcp_endpoint_status\<close> no request is answered with a status other than 200
  and 500.
\<close>

theorem input_shape_errors_are_internal:
  "mcp_endpoint run (Inr (JObj [(''jsonrpc'', JStr ''1.0''), (''id'', JInt 7)]))
     = JSONResponse (Error_object (JInt 7) (- 32603) ''Internal error''
         (HTTPException 400 Invalid_JSON_RPC_request)) 500
   \<and> mcp_endpoint run
       (Inr (JObj [(''jsonrpc'', JStr ''2.0''), (''id'', JInt 7), (''method'', JStr ''tools/delete'')]))
     = JSONResponse (Error_object (JInt 7) (- 32603) ''Internal error''
         (HTTPException 400 (Unknown_method (JStr ''tools/delete'')))) 500
   \<and> mcp_endpoint run
       (Inr (JObj [(''jsonrpc'', JStr ''2.0''), (''id'', JInt 7), (''method'', JStr ''tools/call''),
                   (''params'', JObj [(''name'', JStr ''summarize'')])]))
     = JSONResponse (Error_object (JInt 7) (- 32603) ''Internal error''
         (HTTPException 400 (Unknown_tool (JStr ''summarize'')))) 500"
  by (simp add: mcp_endpoint_def try_block_def except_block_def dict_get_def)

end
